theory Spec2Isabelle
  imports Main "HOL-Library.Char_ord" "HOL-Library.List_Lexorder" "HOL-Library.AList"
begin

section \<open>Data model\<close>

text \<open>
  An item is a Python \<open>Dict[str, Any]\<close>. Its values are the JSON-like values the
  pipeline carries: \<open>None\<close>, booleans, integers, strings, lists and dictionaries.
  A float or a datetime object (produced only by the transformer's builtin conversions)
  is \<open>POther\<close>, named by its \<open>repr\<close>; nothing below computes with it.

  A dictionary is an association list in insertion order with pairwise distinct keys:
  \<open>d.get(k)\<close> is \<open>map_of\<close>, \<open>d[k] = v\<close> is \<open>AList.update\<close> (replace in place,
  or append a new key at the end), \<open>k in d\<close> is \<open>map_of d k \<noteq> None\<close>.
  A Python \<open>str\<close> is a \<open>string\<close> whose characters are code points below 256;
  string order is code-point order (\<open>Char_ord\<close>, \<open>List_Lexorder\<close>).
\<close>

datatype pyval =
    PNone
  | PBool bool
  | PInt int
  | PStr string
  | PList "pyval list"
  | PDict "(string \<times> pyval) list"
  | POther string

type_synonym item = "(string \<times> pyval) list"

text \<open>\<open>item.get(key)\<close>: the value, or \<open>None\<close> when the key is absent.\<close>

definition item_get :: "item \<Rightarrow> string \<Rightarrow> pyval" where
  "item_get it k = (case map_of it k of None \<Rightarrow> PNone | Some v \<Rightarrow> v)"

text \<open>\<open>key in item\<close>.\<close>

definition has_key :: "item \<Rightarrow> string \<Rightarrow> bool" where
  "has_key it k = (map_of it k \<noteq> None)"


section \<open>Python text rendering\<close>

text \<open>
  \<open>str(n)\<close> of an integer is its decimal numeral. \<open>repr\<close> of a string quotes it
  (with \<open>"\<close> when the string holds a \<open>'\<close> and no \<open>"\<close>, with \<open>'\<close> otherwise) and
  escapes the quote, the backslash, tab, newline, carriage return and, as \<open>\xhh\<close>,
  every other character that is not printable.
\<close>

definition digit_char :: "nat \<Rightarrow> char" where
  "digit_char d = char_of (48 + d)"

function show_nat :: "nat \<Rightarrow> string" where
  "show_nat n = (if n < 10 then [digit_char n] else show_nat (n div 10) @ [digit_char (n mod 10)])"
  by pat_completeness auto
termination
  by (relation "measure id") auto

declare show_nat.simps [simp del]

definition show_int :: "int \<Rightarrow> string" where
  "show_int i = (if i < 0 then CHR ''-'' # show_nat (nat (- i)) else show_nat (nat i))"

definition hex_char :: "nat \<Rightarrow> char" where
  "hex_char d = (if d < 10 then char_of (48 + d) else char_of (87 + d))"

definition py_isprintable :: "char \<Rightarrow> bool" where
  "py_isprintable c = (let n = (of_char c :: nat) in
     (32 \<le> n \<and> n < 127) \<or> (161 \<le> n \<and> n \<noteq> 173))"

definition repr_char :: "char \<Rightarrow> char \<Rightarrow> string" where
  "repr_char q c =
     (if c = q \<or> c = CHR 0x5C then [CHR 0x5C, c]
      else if c = CHR 0x09 then [CHR 0x5C, CHR ''t'']
      else if c = CHR 0x0A then [CHR 0x5C, CHR ''n'']
      else if c = CHR 0x0D then [CHR 0x5C, CHR ''r'']
      else if py_isprintable c then [c]
      else [CHR 0x5C, CHR ''x'', hex_char (of_char c div 16), hex_char (of_char c mod 16)])"

definition repr_str :: "string \<Rightarrow> string" where
  "repr_str s =
     (let q = (if CHR 0x27 \<in> set s \<and> CHR 0x22 \<notin> set s then CHR 0x22 else CHR 0x27)
      in [q] @ concat (map (repr_char q) s) @ [q])"

text \<open>\<open>', '.join(parts)\<close>.\<close>

fun join_comma :: "string list \<Rightarrow> string" where
  "join_comma [] = []"
| "join_comma [p] = p"
| "join_comma (p # ps) = p @ '', '' @ join_comma ps"

fun py_repr :: "pyval \<Rightarrow> string" where
  "py_repr PNone = ''None''"
| "py_repr (PBool b) = (if b then ''True'' else ''False'')"
| "py_repr (PInt i) = show_int i"
| "py_repr (PStr s) = repr_str s"
| "py_repr (PList vs) = ''['' @ join_comma (map py_repr vs) @ '']''"
| "py_repr (PDict kvs) =
     ''{'' @ join_comma (map (\<lambda>(k, v). repr_str k @ '': '' @ py_repr v) kvs) @ ''}''"
| "py_repr (POther r) = r"

text \<open>\<open>str(value)\<close>: a string is itself, every other value is its \<open>repr\<close>.\<close>

fun py_str :: "pyval \<Rightarrow> string" where
  "py_str (PStr s) = s"
| "py_str v = py_repr v"

text \<open>\<open>str\<close> of a list of \<open>(key, value)\<close> tuples, as \<open>str(sorted(d.items()))\<close> prints it.\<close>

definition str_pairs :: "(string \<times> pyval) list \<Rightarrow> string" where
  "str_pairs ps =
     ''['' @ join_comma (map (\<lambda>(k, v). ''('' @ repr_str k @ '', '' @ py_repr v @ '')'') ps) @ '']''"

section \<open>Cleaner (cleaner.py)\<close>

subsection \<open>Configuration (config.py)\<close>

record field_validation =
  required :: bool
  ftype :: string

record handle_missing_config =
  strategy :: string
  default_values :: "(string \<times> pyval) list"

record cleaner_config =
  remove_duplicates :: bool
  duplicate_keys :: "string list"
  handle_missing :: "handle_missing_config option"
  field_validation :: "(string \<times> field_validation) list"

subsection \<open>String normalisation: \<open>_clean_string\<close>, \<open>_clean_item\<close>\<close>

text \<open>
  \<open>str.strip()\<close> removes leading and trailing whitespace. Below code point 256 the
  characters with \<open>str.isspace()\<close> are 9 to 13, 28 to 32, 133 and 160.
\<close>

definition py_isspace :: "char \<Rightarrow> bool" where
  "py_isspace c = (let n = (of_char c :: nat) in
     (9 \<le> n \<and> n \<le> 13) \<or> (28 \<le> n \<and> n \<le> 32) \<or> n = 133 \<or> n = 160)"

definition py_strip :: "string \<Rightarrow> string" where
  "py_strip s = rev (dropWhile py_isspace (rev (dropWhile py_isspace s)))"

text \<open>\<open>'  ' in s\<close>: two adjacent spaces occur in \<open>s\<close>.\<close>

fun has_double_space :: "string \<Rightarrow> bool" where
  "has_double_space (a # b # cs) =
     ((a = CHR '' '' \<and> b = CHR '' '') \<or> has_double_space (b # cs))"
| "has_double_space cs = False"

text \<open>\<open>s.replace('  ', ' ')\<close>: one left-to-right pass over non-overlapping matches.\<close>

fun replace_double_space :: "string \<Rightarrow> string" where
  "replace_double_space (a # b # cs) =
     (if a = CHR '' '' \<and> b = CHR '' '' then CHR '' '' # replace_double_space cs
      else a # replace_double_space (b # cs))"
| "replace_double_space cs = cs"

text \<open>The loop \<open>while '  ' in cleaned: cleaned = cleaned.replace('  ', ' ')\<close>.\<close>

function collapse_spaces :: "string \<Rightarrow> string" where
  "collapse_spaces s =
     (if has_double_space s then collapse_spaces (replace_double_space s) else s)"
  by pat_completeness auto
termination
proof (relation "measure length")
  fix s :: string
  have le: "length (replace_double_space t) \<le> length t" for t
    by (induction t rule: replace_double_space.induct) auto
  have "has_double_space t \<Longrightarrow> length (replace_double_space t) < length t" for t
  proof (induction t rule: replace_double_space.induct)
    case (1 a b cs)
    show ?case
    proof (cases "a = CHR '' '' \<and> b = CHR '' ''")
      case True
      then show ?thesis using le [of cs] by simp
    next
      case False
      then have "has_double_space (b # cs)" using "1.prems" by auto
      then show ?thesis using False "1.IH"(2) by auto
    qed
  qed simp_all
  then show "has_double_space s \<Longrightarrow> (replace_double_space s, s) \<in> measure length"
    by simp
qed simp

declare collapse_spaces.simps [simp del]

text \<open>\<open>ord(char) >= 32 or char in '\n\t'\<close>.\<close>

definition keep_char :: "char \<Rightarrow> bool" where
  "keep_char c = ((of_char c :: nat) \<ge> 32 \<or> (of_char c :: nat) = 10 \<or> (of_char c :: nat) = 9)"

definition clean_string :: "string \<Rightarrow> string" where
  "clean_string s = filter keep_char (collapse_spaces (py_strip s))"

text \<open>
  \<open>_clean_item\<close>: \<open>None\<close> stays, a string is cleaned, the strings of a list are
  cleaned (other elements stay), every other value stays.
\<close>

fun clean_list_element :: "pyval \<Rightarrow> pyval" where
  "clean_list_element (PStr s) = PStr (clean_string s)"
| "clean_list_element v = v"

fun clean_value :: "pyval \<Rightarrow> pyval" where
  "clean_value PNone = PNone"
| "clean_value (PStr s) = PStr (clean_string s)"
| "clean_value (PList vs) = PList (map clean_list_element vs)"
| "clean_value v = v"

definition clean_item :: "item \<Rightarrow> item" where
  "clean_item it = (if it = [] then [] else map (\<lambda>(k, v). (k, clean_value v)) it)"

subsection \<open>Missing values\<close>

text \<open>
  \<open>_drop_missing_values\<close>. The required fields are read from the cleaner's own
  configuration (\<open>self.config.field_validation\<close>); with none declared the input is
  returned as it is.
\<close>

definition required_fields :: "(string \<times> field_validation) list \<Rightarrow> string list" where
  "required_fields fv = map fst (filter (\<lambda>(f, c). required c) fv)"

text \<open>\<open>any(item.get(field) is None or item.get(field) == "" for field in required_fields)\<close>.\<close>

definition missing_required :: "string list \<Rightarrow> item \<Rightarrow> bool" where
  "missing_required rf it = list_ex (\<lambda>f. item_get it f = PNone \<or> item_get it f = PStr []) rf"

fun drop_loop :: "string list \<Rightarrow> item list \<Rightarrow> item list \<Rightarrow> item list" where
  "drop_loop rf [] filtered_items = filtered_items"
| "drop_loop rf (it # rest) filtered_items =
     drop_loop rf rest
       (if \<not> missing_required rf it then filtered_items @ [it] else filtered_items)"

definition drop_missing_values :: "(string \<times> field_validation) list \<Rightarrow> item list \<Rightarrow> item list" where
  "drop_missing_values self_fv items =
     (let rf = required_fields self_fv in
      if rf = [] then items else drop_loop rf items [])"

text \<open>
  \<open>_fill_missing_values\<close>: for each \<open>(field, default)\<close> of the default-value map, in
  order, a field that is present with \<open>None\<close> or \<open>""\<close>, or absent, is set to the
  default.
\<close>

fun fill_item :: "(string \<times> pyval) list \<Rightarrow> item \<Rightarrow> item" where
  "fill_item [] filled_item = filled_item"
| "fill_item ((field, default_value) # rest) filled_item =
     fill_item rest
       (if has_key filled_item field
           \<and> (item_get filled_item field = PNone \<or> item_get filled_item field = PStr [])
        then AList.update field default_value filled_item
        else if \<not> has_key filled_item field
        then AList.update field default_value filled_item
        else filled_item)"

fun fill_loop :: "(string \<times> pyval) list \<Rightarrow> item list \<Rightarrow> item list \<Rightarrow> item list" where
  "fill_loop dv [] filled_items = filled_items"
| "fill_loop dv (it # rest) filled_items =
     fill_loop dv rest (filled_items @ [fill_item dv it])"

definition fill_missing_values :: "(string \<times> pyval) list \<Rightarrow> item list \<Rightarrow> item list" where
  "fill_missing_values dv items = fill_loop dv items []"

definition interpolate_missing_values :: "(string \<times> pyval) list \<Rightarrow> item list \<Rightarrow> item list" where
  "interpolate_missing_values dv items = fill_missing_values dv items"

definition handle_missing_values ::
  "(string \<times> field_validation) list \<Rightarrow> item list \<Rightarrow> handle_missing_config \<Rightarrow> item list" where
  "handle_missing_values self_fv items mc =
     (if strategy mc = ''drop'' then drop_missing_values self_fv items
      else if strategy mc = ''default'' then fill_missing_values (default_values mc) items
      else if strategy mc = ''interpolate'' then interpolate_missing_values (default_values mc) items
      else items)"

subsection \<open>Deduplication: \<open>_remove_duplicates\<close>\<close>

text \<open>
  \<open>hash_input\<close> is the dictionary \<open>{key: item.get(key) for key in duplicate_keys}\<close>,
  built key by key; \<open>sorted(hash_input.items())\<close> orders its pairs by key (the keys
  of a dictionary are distinct, so the values are never compared).

  The text rendering and the MD5 digest belong to Python's library:
  \<open>digest pairs\<close> stands for \<open>hashlib.md5(str(pairs).encode()).hexdigest()\<close> and is a
  parameter of the model.
\<close>

definition hash_input :: "string list \<Rightarrow> item \<Rightarrow> (string \<times> pyval) list" where
  "hash_input keys it = fold (\<lambda>k h. AList.update k (item_get it k) h) keys []"

definition item_hash :: "((string \<times> pyval) list \<Rightarrow> string) \<Rightarrow> string list \<Rightarrow> item \<Rightarrow> string" where
  "item_hash digest keys it = digest (sort_key fst (hash_input keys it))"

fun dedup_loop ::
  "((string \<times> pyval) list \<Rightarrow> string) \<Rightarrow> string list \<Rightarrow> item list \<Rightarrow> string set \<Rightarrow> item list \<Rightarrow> item list" where
  "dedup_loop digest keys [] seen_hashes unique_items = unique_items"
| "dedup_loop digest keys (it # rest) seen_hashes unique_items =
     (if item_hash digest keys it \<notin> seen_hashes
      then dedup_loop digest keys rest (insert (item_hash digest keys it) seen_hashes) (unique_items @ [it])
      else dedup_loop digest keys rest seen_hashes unique_items)"

definition remove_duplicates_by ::
  "((string \<times> pyval) list \<Rightarrow> string) \<Rightarrow> string list \<Rightarrow> item list \<Rightarrow> item list" where
  "remove_duplicates_by digest keys items = dedup_loop digest keys items {} []"

subsection \<open>Validation: \<open>_validate_fields\<close>\<close>

text \<open>
  \<open>ItemValidator.create_from_config\<close> collects the configured fields in a local
  dictionary and then returns the class \<open>ItemValidator\<close> itself, which declares no
  field. Calling it with \<open>**item\<close> therefore accepts every item (pydantic ignores
  keywords that are not fields) and \<open>.dict()\<close> of the result is the empty dictionary.
  The validator exists when the cleaner's own configuration has validation rules.
\<close>

definition item_validator :: "item \<Rightarrow> item option" where
  "item_validator it = Some []"

fun validate_loop :: "item list \<Rightarrow> item list \<Rightarrow> item list" where
  "validate_loop [] validated_items = validated_items"
| "validate_loop (it # rest) validated_items =
     (case item_validator it of
        Some d \<Rightarrow> validate_loop rest (validated_items @ [d])
      | None \<Rightarrow> validate_loop rest validated_items)"

definition validate_fields :: "(string \<times> field_validation) list \<Rightarrow> item list \<Rightarrow> item list" where
  "validate_fields self_fv items =
     (if self_fv = [] then items else validate_loop items [])"

subsection \<open>\<open>clean_data\<close>\<close>

text \<open>
  \<open>config = cleaning_config or self.config\<close>; then missing values, duplicates,
  validation, and \<open>[self._clean_item(item) for item in cleaned_items if item]\<close>.
\<close>

definition clean_data ::
  "((string \<times> pyval) list \<Rightarrow> string) \<Rightarrow> cleaner_config \<Rightarrow> cleaner_config option \<Rightarrow> item list \<Rightarrow> item list" where
  "clean_data digest self_config cleaning_config items =
     (let config = (case cleaning_config of None \<Rightarrow> self_config | Some c \<Rightarrow> c);
          c1 = (case handle_missing config of
                  None \<Rightarrow> items
                | Some mc \<Rightarrow> handle_missing_values (field_validation self_config) items mc);
          c2 = (if remove_duplicates config \<and> duplicate_keys config \<noteq> []
                then remove_duplicates_by digest (duplicate_keys config) c1 else c1);
          c3 = (if field_validation config \<noteq> []
                then validate_fields (field_validation self_config) c2 else c2)
      in map clean_item (filter (\<lambda>it. it \<noteq> []) c3))"

section \<open>Exceptions\<close>

text \<open>
  Every \<open>raise\<close> of the source is a value of this type; a function that can raise
  returns \<open>py_exception + 'a\<close>, with \<open>Inl\<close> for the exception.
\<close>

datatype py_exception =
    AttributeError
  | TypeError
  | ValueError
  | OverflowError
  | JSONDecodeError
  | TransformationError py_exception
  | HTTPStatusError nat
  | RequestError
  | RetryError py_exception
  | OtherError string

section \<open>Transformer (transformer.py)\<close>

subsection \<open>Python builtins used by the conversions\<close>

text \<open>
  \<open>int(x)\<close>, \<open>float(x)\<close>, \<open>bool(x)\<close>, \<open>json.loads(s)\<close>, \<open>datetime.strptime(s, fmt)\<close>
  and the evaluation of a lambda source text (\<open>eval(lambda_str, safe_globals)()\<close>) belong
  to Python and its library. They are parameters of the model: each may return a value
  or raise. \<open>strptime\<close> raises only \<open>ValueError\<close>, written \<open>None\<close>.
\<close>

record py_builtins =
  int_of :: "pyval \<Rightarrow> py_exception + pyval"
  float_of :: "pyval \<Rightarrow> py_exception + pyval"
  bool_of :: "pyval \<Rightarrow> bool"
  json_loads :: "string \<Rightarrow> py_exception + pyval"
  strptime :: "string \<Rightarrow> string \<Rightarrow> pyval option"
  eval_lambda :: "string \<Rightarrow> item \<Rightarrow> py_exception + pyval"

text \<open>\<open>str.lower()\<close> on code points below 256.\<close>

definition lower_char :: "char \<Rightarrow> char" where
  "lower_char c = (let n = (of_char c :: nat) in
     if (65 \<le> n \<and> n \<le> 90) \<or> (192 \<le> n \<and> n \<le> 222 \<and> n \<noteq> 215) then char_of (n + 32) else c)"

definition str_lower :: "string \<Rightarrow> string" where
  "str_lower s = map lower_char s"

text \<open>\<open>s.split(',')\<close>.\<close>

fun split_comma :: "string \<Rightarrow> string list" where
  "split_comma [] = [[]]"
| "split_comma (c # cs) =
     (if c = CHR '','' then [] # split_comma cs
      else (case split_comma cs of
              w # ws \<Rightarrow> (c # w) # ws
            | [] \<Rightarrow> [[c]]))"

text \<open>\<open>s.startswith(p)\<close> and \<open>p in s\<close> for strings.\<close>

fun starts_with :: "string \<Rightarrow> string \<Rightarrow> bool" where
  "starts_with [] s = True"
| "starts_with (p # ps) [] = False"
| "starts_with (p # ps) (c # cs) = (p = c \<and> starts_with ps cs)"

fun contains_str :: "string \<Rightarrow> string \<Rightarrow> bool" where
  "contains_str p [] = (p = [])"
| "contains_str p (c # cs) = (starts_with p (c # cs) \<or> contains_str p cs)"

subsection \<open>Configuration (config.py)\<close>

record transformer_config =
  field_mapping :: "(string \<times> string) list"
  type_conversions :: "(string \<times> string) list"
  custom_functions :: "(string \<times> string) list"

subsection \<open>\<open>_convert_type\<close>\<close>

text \<open>The datetime formats, tried in this order; the first that parses wins.\<close>

definition datetime_formats :: "string list" where
  "datetime_formats =
     [''%Y-%m-%d %H:%M:%S'', ''%Y-%m-%dT%H:%M:%S'', ''%Y-%m-%d'', ''%m/%d/%Y'', ''%d/%m/%Y'']"

fun try_formats :: "py_builtins \<Rightarrow> string \<Rightarrow> string list \<Rightarrow> pyval" where
  "try_formats B s [] = PStr s"
| "try_formats B s (fmt # fmts) =
     (case strptime B s fmt of Some d \<Rightarrow> d | None \<Rightarrow> try_formats B s fmts)"

text \<open>The body of the \<open>try\<close> in \<open>_convert_type\<close>, for the lower-cased target type.\<close>

definition convert_body :: "py_builtins \<Rightarrow> pyval \<Rightarrow> string \<Rightarrow> py_exception + pyval" where
  "convert_body B v t =
     (if t = ''string'' then Inr (PStr (py_str v))
      else if t = ''int'' then
        (case v of
           PStr s \<Rightarrow> (case float_of B v of Inl e \<Rightarrow> Inl e | Inr f \<Rightarrow> int_of B f)
         | _ \<Rightarrow> int_of B v)
      else if t = ''float'' then float_of B v
      else if t = ''bool'' then
        (case v of
           PStr s \<Rightarrow> Inr (PBool (str_lower s \<in> set [''true'', ''1'', ''yes'', ''on'']))
         | _ \<Rightarrow> Inr (PBool (bool_of B v)))
      else if t = ''array'' then
        (case v of
           PStr s \<Rightarrow>
             (case json_loads B s of
                Inr (PList parsed) \<Rightarrow> Inr (PList parsed)
              | _ \<Rightarrow> Inr (PList (map (\<lambda>w. PStr (py_strip w)) (split_comma s))))
         | PList l \<Rightarrow> Inr (PList l)
         | _ \<Rightarrow> Inr (PList [v]))
      else if t = ''dict'' then
        (case v of
           PStr s \<Rightarrow> json_loads B s
         | PDict d \<Rightarrow> Inr v
         | _ \<Rightarrow> Inr (PDict [(''value'', v)]))
      else if t = ''datetime'' then
        (case v of
           PStr s \<Rightarrow> Inr (try_formats B s datetime_formats)
         | _ \<Rightarrow> Inr v)
      else Inr v)"

text \<open>
  \<open>_convert_type\<close>: \<open>None\<close> stays \<open>None\<close>; any exception of the body is re-raised
  as a \<open>TransformationError\<close>.
\<close>

definition convert_type :: "py_builtins \<Rightarrow> pyval \<Rightarrow> string \<Rightarrow> py_exception + pyval" where
  "convert_type B v target_type =
     (if v = PNone then Inr PNone
      else (case convert_body B v (str_lower target_type) of
              Inl e \<Rightarrow> Inl (TransformationError e)
            | Inr r \<Rightarrow> Inr r))"

subsection \<open>The three steps of \<open>_transform_item\<close> on a dictionary\<close>

text \<open>
  \<open>_apply_field_mapping\<close>: first the mapped fields that the item has, under their new
  names, in the order of the mapping; then the item's fields that the mapping does not
  name, in the item's order.
\<close>

fun mapping_loop :: "item \<Rightarrow> (string \<times> string) list \<Rightarrow> item \<Rightarrow> item" where
  "mapping_loop it [] mapped_item = mapped_item"
| "mapping_loop it ((old_field, new_field) # rest) mapped_item =
     mapping_loop it rest
       (if has_key it old_field then AList.update new_field (item_get it old_field) mapped_item
        else mapped_item)"

fun unmapped_loop :: "(string \<times> string) list \<Rightarrow> item \<Rightarrow> item \<Rightarrow> item" where
  "unmapped_loop fm [] mapped_item = mapped_item"
| "unmapped_loop fm ((field, v) # rest) mapped_item =
     unmapped_loop fm rest
       (if map_of fm field = None then AList.update field v mapped_item else mapped_item)"

definition field_mapping_dict :: "(string \<times> string) list \<Rightarrow> item \<Rightarrow> item" where
  "field_mapping_dict fm it =
     (if fm = [] then it else unmapped_loop fm it (mapping_loop it fm []))"

text \<open>
  \<open>_apply_type_conversions\<close>: a field that is present and not \<open>None\<close> is replaced by
  its conversion; when the conversion raises, the exception is logged and the field
  keeps its value.
\<close>

fun conversions_loop :: "py_builtins \<Rightarrow> (string \<times> string) list \<Rightarrow> item \<Rightarrow> item" where
  "conversions_loop B [] converted_item = converted_item"
| "conversions_loop B ((field, target_type) # rest) converted_item =
     conversions_loop B rest
       (if has_key converted_item field \<and> item_get converted_item field \<noteq> PNone
        then (case convert_type B (item_get converted_item field) target_type of
                Inr r \<Rightarrow> AList.update field r converted_item
              | Inl e \<Rightarrow> converted_item)
        else converted_item)"

definition type_conversions_dict :: "py_builtins \<Rightarrow> (string \<times> string) list \<Rightarrow> item \<Rightarrow> item" where
  "type_conversions_dict B tc it = (if tc = [] then it else conversions_loop B tc it)"

text \<open>
  \<open>SafeEvaluator.evaluate_lambda\<close>: the text must start with \<open>lambda\<close>; every
  exception becomes a \<open>TransformationError\<close>. \<open>_apply_custom_functions\<close> stores the
  result under the function's name, or \<open>None\<close> when the evaluation raised. Each
  function sees the item as it was before any custom function ran.
\<close>

definition evaluate_lambda :: "py_builtins \<Rightarrow> string \<Rightarrow> item \<Rightarrow> py_exception + pyval" where
  "evaluate_lambda B lambda_str it =
     (if \<not> starts_with ''lambda'' (py_strip lambda_str) then Inl (TransformationError ValueError)
      else (case eval_lambda B lambda_str it of
              Inl e \<Rightarrow> Inl (TransformationError e)
            | Inr r \<Rightarrow> Inr r))"

fun functions_loop :: "py_builtins \<Rightarrow> item \<Rightarrow> (string \<times> string) list \<Rightarrow> item \<Rightarrow> item" where
  "functions_loop B it [] transformed_item = transformed_item"
| "functions_loop B it ((field_name, func_str) # rest) transformed_item =
     functions_loop B it rest
       (case evaluate_lambda B func_str it of
          Inr r \<Rightarrow> AList.update field_name r transformed_item
        | Inl e \<Rightarrow> AList.update field_name PNone transformed_item)"

definition custom_functions_dict :: "py_builtins \<Rightarrow> (string \<times> string) list \<Rightarrow> item \<Rightarrow> item" where
  "custom_functions_dict B cf it = (if cf = [] then it else functions_loop B it cf it)"

subsection \<open>\<open>_transform_item\<close> on any element of the input list\<close>

text \<open>
  The input list is typed \<open>List[Dict[str, Any]]\<close> but nothing checks its elements, and
  the \<open>try\<close> of \<open>transform_data\<close> is there for the elements that make a step raise.
  On a dictionary no step raises. On another value:
  \<^item> \<open>_apply_field_mapping\<close> calls \<open>item.copy()\<close> when the mapping is empty (only a list
    has it), and otherwise tests \<open>old_field in item\<close> (a \<open>TypeError\<close> on a value that
    is not a container), reads \<open>item[old_field]\<close> when the test holds (a \<open>TypeError\<close>
    on a list or a string) and at last calls \<open>item.items()\<close> (an \<open>AttributeError\<close>);
  \<^item> on a list, \<open>_apply_type_conversions\<close> reads \<open>converted_item[field]\<close> as soon as a
    field name is an element of the list (a \<open>TypeError\<close>, outside its \<open>try\<close>);
  \<^item> on a list, \<open>_apply_custom_functions\<close> assigns \<open>transformed_item[field_name]\<close>, which
    raises \<open>TypeError\<close> in the \<open>try\<close> and again in its handler.
\<close>

definition apply_field_mapping :: "(string \<times> string) list \<Rightarrow> pyval \<Rightarrow> py_exception + pyval" where
  "apply_field_mapping fm v =
     (case v of
        PDict d \<Rightarrow> Inr (PDict (field_mapping_dict fm d))
      | PList l \<Rightarrow>
          (if fm = [] then Inr (PList l)
           else if list_ex (\<lambda>(old_field, new_field). PStr old_field \<in> set l) fm then Inl TypeError
           else Inl AttributeError)
      | PStr s \<Rightarrow>
          (if fm = [] then Inl AttributeError
           else if list_ex (\<lambda>(old_field, new_field). contains_str old_field s) fm then Inl TypeError
           else Inl AttributeError)
      | _ \<Rightarrow> (if fm = [] then Inl AttributeError else Inl TypeError))"

definition apply_type_conversions ::
  "py_builtins \<Rightarrow> (string \<times> string) list \<Rightarrow> pyval \<Rightarrow> py_exception + pyval" where
  "apply_type_conversions B tc v =
     (case v of
        PDict d \<Rightarrow> Inr (PDict (type_conversions_dict B tc d))
      | PList l \<Rightarrow>
          (if list_ex (\<lambda>(field, target_type). PStr field \<in> set l) tc then Inl TypeError
           else Inr (PList l))
      | _ \<Rightarrow> Inl AttributeError)"

definition apply_custom_functions ::
  "py_builtins \<Rightarrow> (string \<times> string) list \<Rightarrow> pyval \<Rightarrow> py_exception + pyval" where
  "apply_custom_functions B cf v =
     (case v of
        PDict d \<Rightarrow> Inr (PDict (custom_functions_dict B cf d))
      | PList l \<Rightarrow> (if cf = [] then Inr (PList l) else Inl TypeError)
      | _ \<Rightarrow> Inl AttributeError)"

definition transform_item :: "py_builtins \<Rightarrow> transformer_config \<Rightarrow> pyval \<Rightarrow> py_exception + pyval" where
  "transform_item B config v =
     (case apply_field_mapping (field_mapping config) v of
        Inl e \<Rightarrow> Inl e
      | Inr mapped_item \<Rightarrow>
          (case apply_type_conversions B (type_conversions config) mapped_item of
             Inl e \<Rightarrow> Inl e
           | Inr typed_item \<Rightarrow> apply_custom_functions B (custom_functions config) typed_item))"

subsection \<open>\<open>transform_data\<close>\<close>

text \<open>
  One output element per input element: the transformed item, or the original item
  when \<open>_transform_item\<close> raised.
\<close>

fun transform_loop ::
  "py_builtins \<Rightarrow> transformer_config \<Rightarrow> pyval list \<Rightarrow> pyval list \<Rightarrow> pyval list" where
  "transform_loop B config [] transformed_items = transformed_items"
| "transform_loop B config (it # rest) transformed_items =
     transform_loop B config rest
       (case transform_item B config it of
          Inr transformed_item \<Rightarrow> transformed_items @ [transformed_item]
        | Inl e \<Rightarrow> transformed_items @ [it])"

definition transform_data ::
  "py_builtins \<Rightarrow> transformer_config \<Rightarrow> transformer_config option \<Rightarrow> pyval list \<Rightarrow> pyval list" where
  "transform_data B self_config transform_config items =
     transform_loop B (case transform_config of None \<Rightarrow> self_config | Some c \<Rightarrow> c) items []"

subsection \<open>An instance of the builtins for examples\<close>

text \<open>
  To run the model on examples, an instance of the builtins that does what Python does
  on booleans, integers and strings of decimal digits: \<open>float("5")\<close> is \<open>5.0\<close>,
  \<open>int(5.0)\<close> is \<open>5\<close>, \<open>float("abc")\<close> raises \<open>ValueError\<close>, \<open>int([])\<close> raises
  \<open>TypeError\<close>. Its \<open>json.loads\<close>, \<open>strptime\<close> and lambda evaluation always fail; the
  examples give them no text that Python would accept.
\<close>

definition parse_digits :: "string \<Rightarrow> nat option" where
  "parse_digits s =
     (if s \<noteq> [] \<and> list_all (\<lambda>c. 48 \<le> (of_char c :: nat) \<and> (of_char c :: nat) \<le> 57) s
      then Some (foldl (\<lambda>n c. 10 * n + (of_char c - 48)) 0 s) else None)"

definition example_builtins :: py_builtins where
  "example_builtins =
     \<lparr>int_of = (\<lambda>v. case v of
                  PInt i \<Rightarrow> Inr (PInt i)
                | PBool b \<Rightarrow> Inr (PInt (if b then 1 else 0))
                | POther r \<Rightarrow>
                    (case parse_digits (take (length r - 2) r) of
                       Some n \<Rightarrow> Inr (PInt (int n))
                     | None \<Rightarrow> Inl ValueError)
                | _ \<Rightarrow> Inl TypeError),
      float_of = (\<lambda>v. case v of
                  PStr s \<Rightarrow>
                    (case parse_digits s of
                       Some n \<Rightarrow> Inr (POther (show_nat n @ ''.0''))
                     | None \<Rightarrow> Inl ValueError)
                | PInt i \<Rightarrow> Inr (POther (show_int i @ ''.0''))
                | _ \<Rightarrow> Inl TypeError),
      bool_of = (\<lambda>v. case v of
                  PNone \<Rightarrow> False
                | PBool b \<Rightarrow> b
                | PInt i \<Rightarrow> i \<noteq> 0
                | PStr s \<Rightarrow> s \<noteq> []
                | PList l \<Rightarrow> l \<noteq> []
                | PDict d \<Rightarrow> d \<noteq> []
                | POther r \<Rightarrow> True),
      json_loads = (\<lambda>s. Inl JSONDecodeError),
      strptime = (\<lambda>s fmt. None),
      eval_lambda = (\<lambda>s it. Inl TypeError)\<rparr>"

section \<open>Storage adapters (storage/csv\_storage.py, storage/jsonl\_storage.py)\<close>

subsection \<open>Files and the library's text formats\<close>

text \<open>
  The file system maps a path to the text of the file, \<open>None\<close> when the file does not
  exist. Disk errors are not modelled: opening and writing succeed.

  The text formats belong to Python's library and are parameters of the model:
  \<^item> \<open>writerow cells\<close> is the text \<open>csv.writer(...).writerow(cells)\<close> emits, for the
    adapter's delimiter and quoting;
  \<^item> \<open>reader text\<close> is the list of rows \<open>csv.reader\<close> yields for the adapter's delimiter;
  \<^item> \<open>dumps v\<close> is \<open>json.dumps(v, ensure_ascii=False)\<close>, which raises on a value that
    is not serialisable;
  \<^item> \<open>dumps_line v\<close> is the compact
    \<open>json.dumps(v, ensure_ascii=..., default=self._json_serializer, separators=(',', ':'))\<close>;
  \<^item> \<open>loads text\<close> is \<open>json.loads(text)\<close>, \<open>None\<close> when it raises.
\<close>

type_synonym file_system = "string \<Rightarrow> string option"

record storage_codecs =
  writerow :: "string list \<Rightarrow> string"
  reader :: "string \<Rightarrow> string list list"
  dumps :: "pyval \<Rightarrow> py_exception + string"
  dumps_line :: "pyval \<Rightarrow> py_exception + string"
  loads :: "string \<Rightarrow> pyval option"

text \<open>
  A file opened for reading in text mode with the default \<open>newline\<close> translates
  \<open>\r\n\<close> and a lone \<open>\r\<close> to \<open>\n\<close>. Iterating over it yields the lines, each with
  its \<open>\n\<close>.
\<close>

fun universal_newlines :: "string \<Rightarrow> string" where
  "universal_newlines [] = []"
| "universal_newlines [c] = (if c = CHR 0x0D then [CHR 0x0A] else [c])"
| "universal_newlines (c # d # cs) =
     (if c = CHR 0x0D \<and> d = CHR 0x0A then CHR 0x0A # universal_newlines cs
      else if c = CHR 0x0D then CHR 0x0A # universal_newlines (d # cs)
      else c # universal_newlines (d # cs))"

fun lines_from :: "string \<Rightarrow> string \<Rightarrow> string list" where
  "lines_from cur [] = (if cur = [] then [] else [cur])"
| "lines_from cur (c # cs) =
     (if c = CHR 0x0A then (cur @ [c]) # lines_from [] cs else lines_from (cur @ [c]) cs)"

definition text_lines :: "string \<Rightarrow> string list" where
  "text_lines s = lines_from [] (universal_newlines s)"

text \<open>\<open>'w' if self.mode == 'w' else 'a'\<close>: the text of the file once it is opened for writing.\<close>

definition open_for_write :: "string \<Rightarrow> file_system \<Rightarrow> string \<Rightarrow> string" where
  "open_for_write md fs path =
     (if md = ''w'' then [] else (case fs path of None \<Rightarrow> [] | Some old \<Rightarrow> old))"

subsection \<open>The CSV adapter\<close>

record csv_adapter =
  csv_filename :: string
  csv_write_header :: bool
  csv_mode :: string

text \<open>
  \<open>_prepare_csv_content\<close>, one cell: an absent field and \<open>None\<close> are the empty text, a
  list or a dictionary is its JSON text, every other value is \<open>str(value)\<close>.
\<close>

definition csv_cell :: "storage_codecs \<Rightarrow> item \<Rightarrow> string \<Rightarrow> py_exception + string" where
  "csv_cell C it field =
     (case map_of it field of
        None \<Rightarrow> Inr []
      | Some PNone \<Rightarrow> Inr []
      | Some (PList l) \<Rightarrow> dumps C (PList l)
      | Some (PDict d) \<Rightarrow> dumps C (PDict d)
      | Some v \<Rightarrow> Inr (py_str v))"

fun csv_row :: "storage_codecs \<Rightarrow> item \<Rightarrow> string list \<Rightarrow> py_exception + string list" where
  "csv_row C it [] = Inr []"
| "csv_row C it (field # names) =
     (case csv_cell C it field of
        Inl e \<Rightarrow> Inl e
      | Inr cell \<Rightarrow> (case csv_row C it names of Inl e \<Rightarrow> Inl e | Inr cells \<Rightarrow> Inr (cell # cells)))"

fun csv_rows_text :: "storage_codecs \<Rightarrow> string list \<Rightarrow> item list \<Rightarrow> string \<Rightarrow> py_exception + string" where
  "csv_rows_text C fieldnames [] output = Inr output"
| "csv_rows_text C fieldnames (it # rest) output =
     (case csv_row C it fieldnames of
        Inl e \<Rightarrow> Inl e
      | Inr cells \<Rightarrow> csv_rows_text C fieldnames rest (output @ writerow C cells))"

definition prepare_csv_content ::
  "storage_codecs \<Rightarrow> item list \<Rightarrow> string list \<Rightarrow> bool \<Rightarrow> py_exception + string" where
  "prepare_csv_content C items fieldnames write_header =
     csv_rows_text C fieldnames items (if write_header then writerow C fieldnames else [])"

text \<open>\<open>sorted(list(all_fields))\<close>: the keys of all items, each once, in string order.\<close>

definition csv_fieldnames :: "item list \<Rightarrow> string list" where
  "csv_fieldnames items = sort (remdups (concat (map (map fst) items)))"

text \<open>
  \<open>save\<close>: the empty list returns \<open>True\<close> before anything is touched. Otherwise the
  file is opened (created or truncated as the mode says) and the prepared content is
  written in one piece; an exception while preparing leaves the opened file without
  the content, and \<open>save\<close> returns \<open>False\<close>.
\<close>

definition csv_save :: "storage_codecs \<Rightarrow> csv_adapter \<Rightarrow> file_system \<Rightarrow> item list \<Rightarrow> bool \<times> file_system" where
  "csv_save C A fs items =
     (if items = [] then (True, fs)
      else
        (let file_exists = (fs (csv_filename A) \<noteq> None);
             should_write_header = (csv_write_header A \<and> (\<not> file_exists \<or> csv_mode A = ''w''));
             opened = open_for_write (csv_mode A) fs (csv_filename A);
             fieldnames = csv_fieldnames items
         in case prepare_csv_content C items fieldnames should_write_header of
              Inl e \<Rightarrow> (False, fs(csv_filename A \<mapsto> opened))
            | Inr content \<Rightarrow> (True, fs(csv_filename A \<mapsto> opened @ content))))"

text \<open>
  \<open>csv.DictReader\<close>: the first row holds the field names; an empty row is skipped; a
  short row is filled with \<open>None\<close>; the extra cells of a long row are stored as a list
  under the key \<open>None\<close>. \<open>load\<close> then calls \<open>value.startswith\<close> on every value of the
  row, which raises on that list: the exception ends \<open>load\<close>, which returns \<open>[]\<close>.
  So a long row is \<open>None\<close> here.
\<close>

definition dict_reader_row :: "string list \<Rightarrow> string list \<Rightarrow> item option" where
  "dict_reader_row fieldnames row =
     (if length fieldnames < length row then None
      else Some (fold (\<lambda>k d. AList.update k PNone d) (drop (length row) fieldnames)
                  (fold (\<lambda>(k, c) d. AList.update k (PStr c) d) (zip fieldnames row) [])))"

text \<open>
  The loop over \<open>row.items()\<close> in \<open>load\<close>: a non-empty text that starts with \<open>{\<close> or
  \<open>[\<close> is replaced by its JSON value when it parses, and kept otherwise.
\<close>

definition looks_like_json :: "string \<Rightarrow> bool" where
  "looks_like_json s = (case s of [] \<Rightarrow> False | c # cs \<Rightarrow> c = CHR ''{'' \<or> c = CHR ''['')"

fun decode_cell :: "storage_codecs \<Rightarrow> pyval \<Rightarrow> pyval" where
  "decode_cell C (PStr s) =
     (if looks_like_json s then (case loads C s of Some j \<Rightarrow> j | None \<Rightarrow> PStr s) else PStr s)"
| "decode_cell C v = v"

definition decode_row :: "storage_codecs \<Rightarrow> item \<Rightarrow> item" where
  "decode_row C row = map (\<lambda>(k, v). (k, decode_cell C v)) row"

text \<open>\<open>limit\<close> is \<open>None\<close> or a number; \<open>if limit and ...\<close> ignores \<open>None\<close> and \<open>0\<close>.\<close>

definition limit_reached :: "nat option \<Rightarrow> nat \<Rightarrow> bool" where
  "limit_reached limit n = (case limit of None \<Rightarrow> False | Some l \<Rightarrow> l \<noteq> 0 \<and> l \<le> n)"

fun csv_load_loop ::
  "storage_codecs \<Rightarrow> string list \<Rightarrow> string list list \<Rightarrow> nat option \<Rightarrow> item list \<Rightarrow> item list option" where
  "csv_load_loop C fieldnames [] limit items = Some items"
| "csv_load_loop C fieldnames (row # rest) limit items =
     (if row = [] then csv_load_loop C fieldnames rest limit items
      else (case dict_reader_row fieldnames row of
              None \<Rightarrow> None
            | Some d \<Rightarrow>
                (let items' = items @ [decode_row C d]
                 in if limit_reached limit (length items') then Some items'
                    else csv_load_loop C fieldnames rest limit items')))"

definition csv_load :: "storage_codecs \<Rightarrow> csv_adapter \<Rightarrow> file_system \<Rightarrow> nat option \<Rightarrow> item list" where
  "csv_load C A fs limit =
     (case fs (csv_filename A) of
        None \<Rightarrow> []
      | Some content \<Rightarrow>
          (case reader C (universal_newlines content) of
             [] \<Rightarrow> []
           | fieldnames # rows \<Rightarrow>
               (case csv_load_loop C fieldnames rows limit [] of
                  None \<Rightarrow> []
                | Some items \<Rightarrow> items)))"

subsection \<open>The JSONL adapter\<close>

record jsonl_adapter =
  jsonl_filename :: string
  jsonl_mode :: string

text \<open>
  \<open>save\<close>: the empty list returns \<open>True\<close> before anything is touched. Otherwise the
  file is opened and one line is written per item; an exception ends the loop after the
  lines already written, and \<open>save\<close> returns \<open>False\<close>.
\<close>

fun jsonl_write_loop :: "storage_codecs \<Rightarrow> item list \<Rightarrow> string \<Rightarrow> bool \<times> string" where
  "jsonl_write_loop C [] written = (True, written)"
| "jsonl_write_loop C (it # rest) written =
     (case dumps_line C (PDict it) of
        Inl e \<Rightarrow> (False, written)
      | Inr json_line \<Rightarrow> jsonl_write_loop C rest (written @ json_line @ [CHR 0x0A]))"

definition jsonl_save ::
  "storage_codecs \<Rightarrow> jsonl_adapter \<Rightarrow> file_system \<Rightarrow> item list \<Rightarrow> bool \<times> file_system" where
  "jsonl_save C A fs items =
     (if items = [] then (True, fs)
      else
        (let opened = open_for_write (jsonl_mode A) fs (jsonl_filename A);
             result = jsonl_write_loop C items opened
         in (fst result, fs(jsonl_filename A \<mapsto> snd result))))"

text \<open>
  \<open>load\<close>: each line is stripped; an empty line is skipped; a line that is not JSON is
  logged and skipped; every other line contributes its value.
\<close>

fun jsonl_load_loop :: "storage_codecs \<Rightarrow> string list \<Rightarrow> nat option \<Rightarrow> pyval list \<Rightarrow> pyval list" where
  "jsonl_load_loop C [] limit items = items"
| "jsonl_load_loop C (line # rest) limit items =
     (if py_strip line = [] then jsonl_load_loop C rest limit items
      else (case loads C (py_strip line) of
              None \<Rightarrow> jsonl_load_loop C rest limit items
            | Some v \<Rightarrow>
                (if limit_reached limit (length (items @ [v])) then items @ [v]
                 else jsonl_load_loop C rest limit (items @ [v]))))"

definition jsonl_load :: "storage_codecs \<Rightarrow> jsonl_adapter \<Rightarrow> file_system \<Rightarrow> nat option \<Rightarrow> pyval list" where
  "jsonl_load C A fs limit =
     (case fs (jsonl_filename A) of
        None \<Rightarrow> []
      | Some content \<Rightarrow> jsonl_load_loop C (text_lines content) limit [])"

subsection \<open>What a round trip asks of the library\<close>

text \<open>
  The adapters rely on the library's formats reading back what they wrote. For the
  values at hand: the JSON text of a structured cell starts with \<open>{\<close> or \<open>[\<close> and parses
  to the value; the JSON line of an item holds no line break and, stripped, parses to
  the item; the CSV reader returns the rows that were written.
\<close>

definition json_cell_round_trips :: "storage_codecs \<Rightarrow> pyval \<Rightarrow> bool" where
  "json_cell_round_trips C v =
     (case v of
        PList l \<Rightarrow> (case dumps C v of Inl e \<Rightarrow> False | Inr t \<Rightarrow> looks_like_json t \<and> loads C t = Some v)
      | PDict d \<Rightarrow> (case dumps C v of Inl e \<Rightarrow> False | Inr t \<Rightarrow> looks_like_json t \<and> loads C t = Some v)
      | _ \<Rightarrow> True)"

definition json_line_round_trips :: "storage_codecs \<Rightarrow> item \<Rightarrow> bool" where
  "json_line_round_trips C it =
     (case dumps_line C (PDict it) of
        Inl e \<Rightarrow> False
      | Inr line \<Rightarrow>
          CHR 0x0A \<notin> set line \<and> CHR 0x0D \<notin> set line
          \<and> py_strip (line @ [CHR 0x0A]) \<noteq> []
          \<and> loads C (py_strip (line @ [CHR 0x0A])) = Some (PDict it))"

definition csv_rows_round_trip :: "storage_codecs \<Rightarrow> string list list \<Rightarrow> bool" where
  "csv_rows_round_trip C rows =
     (reader C (universal_newlines (concat (map (writerow C) rows))) = rows)"

text \<open>The cells \<open>_prepare_csv_content\<close> writes for an item, when none of them raises.\<close>

definition csv_cells :: "storage_codecs \<Rightarrow> string list \<Rightarrow> item \<Rightarrow> string list" where
  "csv_cells C fieldnames it = (case csv_row C it fieldnames of Inl e \<Rightarrow> [] | Inr cells \<Rightarrow> cells)"

text \<open>The line \<open>save\<close> writes for an item, when \<open>json.dumps\<close> does not raise.\<close>

definition json_line :: "storage_codecs \<Rightarrow> item \<Rightarrow> string" where
  "json_line C it = (case dumps_line C (PDict it) of Inl e \<Rightarrow> [] | Inr l \<Rightarrow> l)"

subsection \<open>An instance of the text formats for examples\<close>

text \<open>
  To run the adapters on examples: the CSV dialect of the adapter's defaults (comma,
  minimal quoting with \<open>"\<close>, rows ended by \<open>\r\n\<close>) and JSON for the values of the data
  model. A \<open>POther\<close> value is taken to be a float and written as its \<open>repr\<close>; the reader
  of JSON numbers covers integers only and rejects a fraction or an exponent.
\<close>

definition csv_needs_quotes :: "string \<Rightarrow> bool" where
  "csv_needs_quotes s =
     list_ex (\<lambda>c. c = CHR '','' \<or> c = CHR 0x22 \<or> c = CHR 0x0D \<or> c = CHR 0x0A) s"

definition csv_quote :: "string \<Rightarrow> string" where
  "csv_quote s =
     (if csv_needs_quotes s
      then [CHR 0x22] @ concat (map (\<lambda>c. if c = CHR 0x22 then [c, c] else [c]) s) @ [CHR 0x22]
      else s)"

fun join_with :: "string \<Rightarrow> string list \<Rightarrow> string" where
  "join_with sep [] = []"
| "join_with sep [p] = p"
| "join_with sep (p # ps) = p @ sep @ join_with sep ps"

definition example_writerow :: "string list \<Rightarrow> string" where
  "example_writerow cells =
     (if cells = [[]] then [CHR 0x22, CHR 0x22] else join_with '','' (map csv_quote cells))
     @ [CHR 0x0D, CHR 0x0A]"

text \<open>
  The reader's states: 0 at the start of a row, 1 at the start of a field, 2 inside an
  unquoted field, 3 inside a quoted field, 4 after a quote inside a quoted field.
\<close>

fun csv_scan :: "nat \<Rightarrow> string \<Rightarrow> string list \<Rightarrow> string \<Rightarrow> string list list" where
  "csv_scan st field row [] = (if st = 0 then [] else [row @ [field]])"
| "csv_scan st field row (c # cs) =
     (if st = 3 then
        (if c = CHR 0x22 then csv_scan 4 field row cs else csv_scan 3 (field @ [c]) row cs)
      else if c = CHR 0x0A \<or> c = CHR 0x0D then
        (if st = 0 then [] # csv_scan 0 [] [] cs else (row @ [field]) # csv_scan 0 [] [] cs)
      else if c = CHR '','' then csv_scan 1 [] (row @ [field]) cs
      else if c = CHR 0x22 then
        (if st = 0 \<or> st = 1 then csv_scan 3 field row cs
         else if st = 4 then csv_scan 3 (field @ [c]) row cs
         else csv_scan 2 (field @ [c]) row cs)
      else csv_scan 2 (field @ [c]) row cs)"

definition example_reader :: "string \<Rightarrow> string list list" where
  "example_reader s = csv_scan 0 [] [] s"

text \<open>JSON text of a string: \<open>"\<close> and \<open>\\<close> are escaped, a control character is \<open>\u00hh\<close>
  or its short form.\<close>

definition json_char :: "char \<Rightarrow> string" where
  "json_char c =
     (if c = CHR 0x22 then [CHR 0x5C, CHR 0x22]
      else if c = CHR 0x5C then [CHR 0x5C, CHR 0x5C]
      else if c = CHR 0x0A then [CHR 0x5C, CHR ''n'']
      else if c = CHR 0x0D then [CHR 0x5C, CHR ''r'']
      else if c = CHR 0x09 then [CHR 0x5C, CHR ''t'']
      else if c = CHR 0x08 then [CHR 0x5C, CHR ''b'']
      else if c = CHR 0x0C then [CHR 0x5C, CHR ''f'']
      else if (of_char c :: nat) < 32
      then [CHR 0x5C, CHR ''u'', CHR ''0'', CHR ''0'', hex_char (of_char c div 16), hex_char (of_char c mod 16)]
      else [c])"

definition json_string :: "string \<Rightarrow> string" where
  "json_string s = [CHR 0x22] @ concat (map json_char s) @ [CHR 0x22]"

fun json_text :: "string \<Rightarrow> string \<Rightarrow> pyval \<Rightarrow> string" where
  "json_text isep ksep PNone = ''null''"
| "json_text isep ksep (PBool b) = (if b then ''true'' else ''false'')"
| "json_text isep ksep (PInt i) = show_int i"
| "json_text isep ksep (PStr s) = json_string s"
| "json_text isep ksep (PList vs) = ''['' @ join_with isep (map (json_text isep ksep) vs) @ '']''"
| "json_text isep ksep (PDict kvs) =
     ''{'' @ join_with isep (map (\<lambda>(k, v). json_string k @ ksep @ json_text isep ksep v) kvs) @ ''}''"
| "json_text isep ksep (POther r) = r"

definition json_ws :: "char \<Rightarrow> bool" where
  "json_ws c = (c = CHR '' '' \<or> c = CHR 0x0A \<or> c = CHR 0x0D \<or> c = CHR 0x09)"

definition hex_digit :: "char \<Rightarrow> nat option" where
  "hex_digit c = (let n = (of_char c :: nat) in
     if 48 \<le> n \<and> n \<le> 57 then Some (n - 48)
     else if 97 \<le> n \<and> n \<le> 102 then Some (n - 87)
     else if 65 \<le> n \<and> n \<le> 70 then Some (n - 55)
     else None)"

text \<open>The characters of a JSON string after its opening quote, up to the closing one.\<close>

fun json_string_body :: "string \<Rightarrow> string \<Rightarrow> (string \<times> string) option" where
  "json_string_body acc [] = None"
| "json_string_body acc (c # cs) =
     (if c = CHR 0x22 then Some (acc, cs)
      else if c = CHR 0x5C then
        (case cs of
           [] \<Rightarrow> None
         | e # es \<Rightarrow>
             (if e = CHR 0x22 \<or> e = CHR 0x5C \<or> e = CHR ''/'' then json_string_body (acc @ [e]) es
              else if e = CHR ''n'' then json_string_body (acc @ [CHR 0x0A]) es
              else if e = CHR ''r'' then json_string_body (acc @ [CHR 0x0D]) es
              else if e = CHR ''t'' then json_string_body (acc @ [CHR 0x09]) es
              else if e = CHR ''b'' then json_string_body (acc @ [CHR 0x08]) es
              else if e = CHR ''f'' then json_string_body (acc @ [CHR 0x0C]) es
              else if e = CHR ''u'' then
                (case es of
                   a # b # h # l # rest \<Rightarrow>
                     (if a = CHR ''0'' \<and> b = CHR ''0'' then
                        (case (hex_digit h, hex_digit l) of
                           (Some x, Some y) \<Rightarrow> json_string_body (acc @ [char_of (16 * x + y)]) rest
                         | _ \<Rightarrow> None)
                      else None)
                 | _ \<Rightarrow> None)
              else None))
      else if (of_char c :: nat) < 32 then None
      else json_string_body (acc @ [c]) cs)"

definition json_number :: "string \<Rightarrow> (pyval \<times> string) option" where
  "json_number s =
     (let neg = (s \<noteq> [] \<and> hd s = CHR ''-'');
          body = (if neg then tl s else s);
          ds = takeWhile (\<lambda>c. 48 \<le> (of_char c :: nat) \<and> (of_char c :: nat) \<le> 57) body;
          rest = drop (length ds) body
      in if ds = [] \<or> (length ds > 1 \<and> hd ds = CHR ''0'') then None
         else if rest \<noteq> [] \<and> (hd rest = CHR ''.'' \<or> hd rest = CHR ''e'' \<or> hd rest = CHR ''E'') then None
         else (case parse_digits ds of
                 None \<Rightarrow> None
               | Some n \<Rightarrow> Some (PInt (if neg then - int n else int n), rest)))"

text \<open>
  The parser, with fuel for the nesting: \<open>json_value\<close> reads one value,
  \<open>json_elements\<close> the rest of an array after an element, \<open>json_members\<close> the rest of
  an object after a member.
\<close>

fun json_value :: "nat \<Rightarrow> string \<Rightarrow> (pyval \<times> string) option"
  and json_elements :: "nat \<Rightarrow> pyval list \<Rightarrow> string \<Rightarrow> (pyval \<times> string) option"
  and json_members :: "nat \<Rightarrow> (string \<times> pyval) list \<Rightarrow> string \<Rightarrow> (pyval \<times> string) option" where
  "json_value 0 s = None"
| "json_value (Suc n) s =
     (case dropWhile json_ws s of
        [] \<Rightarrow> None
      | c # cs \<Rightarrow>
          (if c = CHR 0x22 then
             (case json_string_body [] cs of None \<Rightarrow> None | Some (t, rest) \<Rightarrow> Some (PStr t, rest))
           else if c = CHR ''['' then
             (case dropWhile json_ws cs of
                [] \<Rightarrow> None
              | d # ds \<Rightarrow>
                  (if d = CHR '']'' then Some (PList [], ds)
                   else (case json_value n (d # ds) of
                           None \<Rightarrow> None
                         | Some (v, rest) \<Rightarrow> json_elements n [v] rest)))
           else if c = CHR ''{'' then
             (case dropWhile json_ws cs of
                [] \<Rightarrow> None
              | d # ds \<Rightarrow>
                  (if d = CHR ''}'' then Some (PDict [], ds)
                   else if d = CHR 0x22 then
                     (case json_string_body [] ds of
                        None \<Rightarrow> None
                      | Some (k, rest) \<Rightarrow>
                          (case dropWhile json_ws rest of
                             [] \<Rightarrow> None
                           | e # es \<Rightarrow>
                               (if e = CHR '':'' then
                                  (case json_value n es of
                                     None \<Rightarrow> None
                                   | Some (v, rest') \<Rightarrow> json_members n [(k, v)] rest')
                                else None)))
                   else None))
           else if starts_with ''null'' (c # cs) then Some (PNone, drop 4 (c # cs))
           else if starts_with ''true'' (c # cs) then Some (PBool True, drop 4 (c # cs))
           else if starts_with ''false'' (c # cs) then Some (PBool False, drop 5 (c # cs))
           else json_number (c # cs)))"
| "json_elements 0 acc s = None"
| "json_elements (Suc n) acc s =
     (case dropWhile json_ws s of
        [] \<Rightarrow> None
      | c # cs \<Rightarrow>
          (if c = CHR '']'' then Some (PList acc, cs)
           else if c = CHR '','' then
             (case json_value n cs of
                None \<Rightarrow> None
              | Some (v, rest) \<Rightarrow> json_elements n (acc @ [v]) rest)
           else None))"
| "json_members 0 acc s = None"
| "json_members (Suc n) acc s =
     (case dropWhile json_ws s of
        [] \<Rightarrow> None
      | c # cs \<Rightarrow>
          (if c = CHR ''}'' then Some (PDict acc, cs)
           else if c = CHR '','' then
             (case dropWhile json_ws cs of
                [] \<Rightarrow> None
              | d # ds \<Rightarrow>
                  (if d = CHR 0x22 then
                     (case json_string_body [] ds of
                        None \<Rightarrow> None
                      | Some (k, rest) \<Rightarrow>
                          (case dropWhile json_ws rest of
                             [] \<Rightarrow> None
                           | e # es \<Rightarrow>
                               (if e = CHR '':'' then
                                  (case json_value n es of
                                     None \<Rightarrow> None
                                   | Some (v, rest') \<Rightarrow> json_members n (AList.update k v acc) rest')
                                else None)))
                   else None))
           else None))"

definition example_loads :: "string \<Rightarrow> pyval option" where
  "example_loads s =
     (case json_value (Suc (length s)) s of
        None \<Rightarrow> None
      | Some (v, rest) \<Rightarrow> (if dropWhile json_ws rest = [] then Some v else None))"

definition example_codecs :: storage_codecs where
  "example_codecs =
     \<lparr>writerow = example_writerow,
      reader = example_reader,
      dumps = (\<lambda>v. Inr (json_text '', '' '': '' v)),
      dumps_line = (\<lambda>v. Inr (json_text '','' '':'' v)),
      loads = example_loads\<rparr>"

section \<open>Verified properties\<close>

subsection \<open>Cleaner: lemmas on the steps of \<open>clean_data\<close>\<close>

lemma drop_loop_filter:
  "drop_loop rf items acc = acc @ filter (\<lambda>it. \<not> missing_required rf it) items"
  by (induction items arbitrary: acc) auto

lemma item_get_missing:
  "(item_get it f = PNone \<or> item_get it f = PStr []) \<longleftrightarrow>
   (map_of it f = None \<or> map_of it f = Some PNone \<or> map_of it f = Some (PStr []))"
  by (auto simp: item_get_def split: option.splits)

lemma missing_required_iff:
  "missing_required rf it \<longleftrightarrow>
     (\<exists>f\<in>set rf. map_of it f = None \<or> map_of it f = Some PNone \<or> map_of it f = Some (PStr []))"
  by (simp add: missing_required_def list_ex_iff item_get_missing)













lemma validate_loop_replicate:
  "validate_loop items acc = acc @ replicate (length items) []"
  by (induction items arbitrary: acc) (simp_all add: item_validator_def replicate_app_Cons_same)



lemma clean_data_validated:
  assumes "field_validation (case oc of None \<Rightarrow> sc | Some c \<Rightarrow> c) \<noteq> []"
    and "field_validation sc \<noteq> []"
  shows "clean_data d sc oc items = []"
  using assms
  by (simp add: clean_data_def validate_fields_def validate_loop_replicate Let_def)




subsection \<open>Cleaner: deduplication\<close>

















subsection \<open>Cleaner: the \<open>drop\<close> strategy\<close>

lemma drop_missing_values_declared:
  "drop_missing_values fv items =
     filter (\<lambda>it. \<forall>(g, r)\<in>set fv. required r \<longrightarrow>
               map_of it g \<noteq> None \<and> map_of it g \<noteq> Some PNone \<and> map_of it g \<noteq> Some (PStr [])) items"
proof -
  have "(\<exists>f\<in>set (required_fields fv). P f) \<longleftrightarrow> (\<exists>(g, r)\<in>set fv. required r \<and> P g)" for P
    by (auto simp: required_fields_def)
  then have m: "missing_required (required_fields fv) it \<longleftrightarrow>
      \<not> (\<forall>(g, r)\<in>set fv. required r \<longrightarrow>
               map_of it g \<noteq> None \<and> map_of it g \<noteq> Some PNone \<and> map_of it g \<noteq> Some (PStr []))" for it
    unfolding missing_required_iff by (auto simp: split_beta)
  show ?thesis
  proof (cases "required_fields fv = []")
    case True
    then have "\<forall>(g, r)\<in>set fv. \<not> required r"
      by (auto simp: required_fields_def filter_empty_conv)
    then have "filter (\<lambda>it. \<forall>(g, r)\<in>set fv. required r \<longrightarrow>
               map_of it g \<noteq> None \<and> map_of it g \<noteq> Some PNone \<and> map_of it g \<noteq> Some (PStr [])) items = items"
      by (auto simp: filter_id_conv)
    then show ?thesis using True by (simp add: drop_missing_values_def)
  next
    case False
    then show ?thesis
      by (simp add: drop_missing_values_def drop_loop_filter m)
  qed
qed

text \<open>
  Claim C8. Under the \<open>drop\<close> strategy the missing-value step keeps exactly the items
  in which every field declared required is present, not \<open>None\<close> and not the empty
  string. The cleaned output does not keep them: a cleaner whose configuration declares
  a field has a validator, the validator is the class \<open>ItemValidator\<close> without any
  field, every item comes out of validation as the empty dictionary, and empty items
  are left out. So with a required field declared, \<open>clean_data\<close> returns the empty
  list for every input, complete items included.
\<close>

theorem drop_strategy_loses_complete_items:
  assumes "(f, c) \<in> set (field_validation self_config)" and "required c"
    and "handle_missing self_config = Some mc" and "strategy mc = ''drop''"
  shows "handle_missing_values (field_validation self_config) items mc =
       filter (\<lambda>it. \<forall>(g, r)\<in>set (field_validation self_config). required r \<longrightarrow>
                 map_of it g \<noteq> None \<and> map_of it g \<noteq> Some PNone \<and> map_of it g \<noteq> Some (PStr [])) items
     \<and> clean_data digest self_config None items = []"
proof
  show "handle_missing_values (field_validation self_config) items mc =
       filter (\<lambda>it. \<forall>(g, r)\<in>set (field_validation self_config). required r \<longrightarrow>
                 map_of it g \<noteq> None \<and> map_of it g \<noteq> Some PNone \<and> map_of it g \<noteq> Some (PStr [])) items"
    using assms(4) by (simp add: handle_missing_values_def drop_missing_values_declared)
next
  have "field_validation self_config \<noteq> []" using assms(1) by auto
  then show "clean_data digest self_config None items = []"
    using clean_data_validated [where oc = None and sc = self_config] by simp
qed

theorem drop_strategy_witness:
  "(''text'', \<lparr>required = True, ftype = ''string''\<rparr>)
      \<in> set (field_validation
          \<lparr>remove_duplicates = False, duplicate_keys = [],
           handle_missing = Some \<lparr>strategy = ''drop'', default_values = []\<rparr>,
           field_validation = [(''text'', \<lparr>required = True, ftype = ''string''\<rparr>),
                               (''author'', \<lparr>required = True, ftype = ''string''\<rparr>)]\<rparr>)
   \<and> required \<lparr>required = True, ftype = ''string''\<rparr>
   \<and> handle_missing_values
        [(''text'', \<lparr>required = True, ftype = ''string''\<rparr>), (''author'', \<lparr>required = True, ftype = ''string''\<rparr>)]
        [[(''text'', PStr ''Hello World''), (''author'', PStr ''John Doe'')],
         [(''text'', PStr []), (''author'', PStr ''Jane Smith'')]]
        \<lparr>strategy = ''drop'', default_values = []\<rparr>
      = [[(''text'', PStr ''Hello World''), (''author'', PStr ''John Doe'')]]
   \<and> clean_data str_pairs
        \<lparr>remove_duplicates = False, duplicate_keys = [],
         handle_missing = Some \<lparr>strategy = ''drop'', default_values = []\<rparr>,
         field_validation = [(''text'', \<lparr>required = True, ftype = ''string''\<rparr>),
                             (''author'', \<lparr>required = True, ftype = ''string''\<rparr>)]\<rparr> None
        [[(''text'', PStr ''Hello World''), (''author'', PStr ''John Doe'')],
         [(''text'', PStr []), (''author'', PStr ''Jane Smith'')]]
      = []"
proof -
  let ?fv = "[(''text'', \<lparr>required = True, ftype = ''string''\<rparr>), (''author'', \<lparr>required = True, ftype = ''string''\<rparr>)]"
  let ?mc = "\<lparr>strategy = ''drop'', default_values = []\<rparr>"
  let ?sc = "\<lparr>remove_duplicates = False, duplicate_keys = [], handle_missing = Some ?mc, field_validation = ?fv\<rparr>"
  let ?items = "[[(''text'', PStr ''Hello World''), (''author'', PStr ''John Doe'')],
         [(''text'', PStr []), (''author'', PStr ''Jane Smith'')]]"
  have a: "(''text'', \<lparr>required = True, ftype = ''string''\<rparr>) \<in> set (field_validation ?sc)" by simp
  have b: "required \<lparr>required = True, ftype = ''string''\<rparr>" by simp
  have c: "handle_missing ?sc = Some ?mc" by simp
  have d: "strategy ?mc = ''drop''" by simp
  show ?thesis
    using drop_strategy_loses_complete_items [OF a b c d, of ?items str_pairs]
    by simp
qed

subsection \<open>Cleaner: the \<open>default\<close> strategy\<close>




subsection \<open>Cleaner: idempotence of \<open>clean_data\<close>\<close>





subsection \<open>Transformer: failures stay inside the field and the item\<close>

lemma transform_loop_map:
  "transform_loop B c items acc =
     acc @ map (\<lambda>x. case transform_item B c x of Inr y \<Rightarrow> y | Inl e \<Rightarrow> x) items"
  by (induction items arbitrary: acc) (auto split: sum.splits)

lemma update_present_keys:
  "has_key al k \<Longrightarrow> map fst (AList.update k v al) = map fst al"
  by (induction al) (auto simp: has_key_def)

lemma conversions_loop_keys: "map fst (conversions_loop B tc it) = map fst it"
  by (induction tc arbitrary: it) (auto simp: update_present_keys split: sum.splits)

lemma conversions_loop_untouched:
  "f \<notin> fst ` set tc \<Longrightarrow> map_of (conversions_loop B tc it) f = map_of it f"
  by (induction tc arbitrary: it) (auto simp: update_conv' split: sum.splits)

lemma convert_type_fails_not_None: "convert_type B v t = Inl e \<Longrightarrow> v \<noteq> PNone"
  by (auto simp: convert_type_def)

lemma conversions_loop_failure_keeps:
  assumes "distinct (map fst tc)" "(f, t) \<in> set tc" "map_of it f = Some v"
    "convert_type B v t = Inl e"
  shows "map_of (conversions_loop B tc it) f = Some v"
  using assms
proof (induction tc arbitrary: it)
  case Nil
  then show ?case by simp
next
  case (Cons p tc)
  obtain g t' where p: "p = (g, t')" by (cases p)
  show ?case
  proof (cases "g = f")
    case True
    then have t': "t' = t" and notin: "f \<notin> fst ` set tc"
      using Cons.prems(1,2) p by (auto simp: image_iff)
    have "item_get it f = v" using Cons.prems(3) by (simp add: item_get_def)
    then show ?thesis
      using True t' p notin Cons.prems(3,4)
      by (simp add: conversions_loop_untouched)
  next
    case False
    then have in_tc: "(f, t) \<in> set tc" using Cons.prems(2) p by auto
    have d: "distinct (map fst tc)" using Cons.prems(1) by simp
    have step: "map_of it' f = Some v \<Longrightarrow> map_of (conversions_loop B tc it') f = Some v" for it'
      using Cons.IH [OF d in_tc _ Cons.prems(4)] by simp
    show ?thesis using False p Cons.prems(3)
      by (auto simp: update_conv' intro!: step split: sum.splits)
  qed
qed

text \<open>
  Claim C5. \<open>transform_data\<close> returns one element per input element: the result
  of \<open>_transform_item\<close>, or the input element unchanged when \<open>_transform_item\<close>
  raised, so an element's result depends on that element alone. On a dictionary
  \<open>_transform_item\<close> always returns a dictionary. \<open>_apply_type_conversions\<close> keeps
  the item's fields, and a field whose conversion raises keeps its value.
\<close>

theorem transform_data_isolates_items:
  "length (transform_data B sc oc items) = length items
   \<and> (\<forall>i<length items.
         transform_data B sc oc items ! i =
           (case transform_item B (case oc of None \<Rightarrow> sc | Some c \<Rightarrow> c) (items ! i) of
              Inr y \<Rightarrow> y
            | Inl e \<Rightarrow> items ! i))
   \<and> (\<forall>d. \<exists>y. transform_item B c (PDict d) = Inr (PDict y))
   \<and> (\<forall>it. map fst (type_conversions_dict B tc it) = map fst it)
   \<and> (\<forall>it f t v e. distinct (map fst tc) \<and> (f, t) \<in> set tc \<and> map_of it f = Some v
         \<and> convert_type B v t = Inl e
         \<longrightarrow> map_of (type_conversions_dict B tc it) f = Some v)"
proof (intro conjI allI impI)
  show "length (transform_data B sc oc items) = length items"
    by (simp add: transform_data_def transform_loop_map)
next
  fix i assume "i < length items"
  then show "transform_data B sc oc items ! i =
           (case transform_item B (case oc of None \<Rightarrow> sc | Some c \<Rightarrow> c) (items ! i) of
              Inr y \<Rightarrow> y
            | Inl e \<Rightarrow> items ! i)"
    by (simp add: transform_data_def transform_loop_map)
next
  fix d
  show "\<exists>y. transform_item B c (PDict d) = Inr (PDict y)"
    by (simp add: transform_item_def apply_field_mapping_def apply_type_conversions_def
        apply_custom_functions_def)
next
  fix it
  show "map fst (type_conversions_dict B tc it) = map fst it"
    by (simp add: type_conversions_dict_def conversions_loop_keys)
next
  fix it f t v e
  assume a: "distinct (map fst tc) \<and> (f, t) \<in> set tc \<and> map_of it f = Some v
         \<and> convert_type B v t = Inl e"
  then have "tc \<noteq> []" by auto
  then show "map_of (type_conversions_dict B tc it) f = Some v"
    using a conversions_loop_failure_keeps [of tc f t it v B e]
    by (simp add: type_conversions_dict_def)
qed

theorem transform_data_witness:
  "distinct (map fst [(''age'', ''int''), (''n'', ''int'')])
   \<and> (''age'', ''int'') \<in> set [(''age'', ''int''), (''n'', ''int'')]
   \<and> map_of [(''age'', PStr ''abc''), (''n'', PStr ''42'')] ''age'' = Some (PStr ''abc'')
   \<and> convert_type example_builtins (PStr ''abc'') ''int'' = Inl (TransformationError ValueError)
   \<and> map_of (type_conversions_dict example_builtins [(''age'', ''int''), (''n'', ''int'')]
               [(''age'', PStr ''abc''), (''n'', PStr ''42'')]) ''age'' = Some (PStr ''abc'')
   \<and> transform_item example_builtins
        \<lparr>field_mapping = [(''a'', ''b'')], type_conversions = [(''age'', ''int''), (''n'', ''int'')],
         custom_functions = []\<rparr> PNone = Inl TypeError
   \<and> transform_data example_builtins
        \<lparr>field_mapping = [(''a'', ''b'')], type_conversions = [(''age'', ''int''), (''n'', ''int'')],
         custom_functions = []\<rparr> None
        [PDict [(''a'', PInt 1), (''c'', PInt 2), (''age'', PStr ''abc''), (''n'', PStr ''42'')],
         PNone,
         PDict [(''n'', PStr ''7'')]] ! 1 = PNone"
proof -
  let ?tc = "[(''age'', ''int''), (''n'', ''int'')]"
  let ?it = "[(''age'', PStr ''abc''), (''n'', PStr ''42'')]"
  let ?c = "\<lparr>field_mapping = [(''a'', ''b'')], type_conversions = ?tc, custom_functions = []\<rparr>"
  let ?items = "[PDict [(''a'', PInt 1), (''c'', PInt 2), (''age'', PStr ''abc''), (''n'', PStr ''42'')],
         PNone, PDict [(''n'', PStr ''7'')]]"
  note T = transform_data_isolates_items
    [where B = example_builtins and sc = ?c and oc = None and items = ?items and c = ?c and tc = ?tc]
  have h1: "distinct (map fst ?tc)" by simp
  have h2: "(''age'', ''int'') \<in> set ?tc" by simp
  have h3: "map_of ?it ''age'' = Some (PStr ''abc'')" by simp
  have h4: "convert_type example_builtins (PStr ''abc'') ''int'' = Inl (TransformationError ValueError)"
    by code_simp
  have k: "map_of (type_conversions_dict example_builtins ?tc ?it) ''age'' = Some (PStr ''abc'')"
  proof (rule T [THEN conjunct2, THEN conjunct2, THEN conjunct2, THEN conjunct2, rule_format])
    show "distinct (map fst ?tc) \<and> (''age'', ''int'') \<in> set ?tc
        \<and> map_of ?it ''age'' = Some (PStr ''abc'')
        \<and> convert_type example_builtins (PStr ''abc'') ''int'' = Inl (TransformationError ValueError)"
      using h1 h2 h3 h4 by (intro conjI)
  qed
  have r: "transform_item example_builtins ?c PNone = Inl TypeError"
    by code_simp
  have "transform_data example_builtins ?c None ?items ! 1 =
      (case transform_item example_builtins (case None of None \<Rightarrow> ?c | Some c \<Rightarrow> c) (?items ! 1) of
         Inr y \<Rightarrow> y | Inl e \<Rightarrow> ?items ! 1)"
    by (rule T [THEN conjunct2, THEN conjunct1, rule_format]) simp
  then have n: "transform_data example_builtins ?c None ?items ! 1 = PNone"
    using r by simp
  from h1 h2 h3 h4 k r n show ?thesis by (intro conjI)
qed

subsection \<open>Storage: saving the empty list\<close>

text \<open>
  Claim C10. For both file adapters, \<open>save\<close> of the empty list returns \<open>True\<close> and
  leaves the file system as it was: no file is created, opened or written, and no
  header row appears, whether or not the target file exists.
\<close>

theorem save_empty_list_changes_nothing:
  "csv_save C A fs [] = (True, fs) \<and> jsonl_save C J fs [] = (True, fs)"
  by (simp add: csv_save_def jsonl_save_def)

theorem save_empty_list_witness:
  "csv_save example_codecs \<lparr>csv_filename = ''out.csv'', csv_write_header = True, csv_mode = ''a''\<rparr>
       Map.empty [] = (True, Map.empty)
   \<and> jsonl_save example_codecs \<lparr>jsonl_filename = ''out.jsonl'', jsonl_mode = ''w''\<rparr>
       Map.empty [] = (True, Map.empty)"
  using save_empty_list_changes_nothing
    [of example_codecs "\<lparr>csv_filename = ''out.csv'', csv_write_header = True, csv_mode = ''a''\<rparr>"
       Map.empty "\<lparr>jsonl_filename = ''out.jsonl'', jsonl_mode = ''w''\<rparr>"]
  by simp

end
